theory Spec2Isabelle
  imports Complex_Main "HOL-Library.Multiset" "HOL-Library.Char_ord" "HOL-Library.List_Lexorder"
begin

section \<open>Bird-strike mitigation service: data model of app.py\<close>

text \<open>
  A Python float is modelled by the real number it denotes. The values are finite floats:
  NaN and the sign of zero are not modelled, and an operation whose result is an infinity
  stands for any real above every finite float, which compares with the finite floats as
  the infinity does. Comparisons of floats are exact, so they are the comparisons of the
  reals. The results of the arithmetic operations are whatever the runtime computes, with
  its rounding: the operations are parameters of the model (see \<open>py_runtime\<close>), and
  \<open>**\<close> can raise OverflowError. The literal \<open>1e-3\<close> is written 1/1000: a float is below
  the one exactly when it is below the other.
\<close>

definition ENGINE_VERSION :: string where
  "ENGINE_VERSION = ''0.2.0''"

record RiskConfig =
  version :: string
  distance_threshold_m :: real
  min_ttc_s :: real
  max_ttc_s :: real
  ttc_low_threshold_s :: real
  ttc_medium_threshold_s :: real
  ttc_high_threshold_s :: real
  prob_presence_only :: real
  prob_low :: real
  prob_medium :: real
  prob_high :: real
  prob_critical :: real

definition RISK_CONFIG :: RiskConfig where
  "RISK_CONFIG = \<lparr> version = ''2025-11-30-a'',
     distance_threshold_m = 500, min_ttc_s = 5, max_ttc_s = 120,
     ttc_low_threshold_s = 60, ttc_medium_threshold_s = 30, ttc_high_threshold_s = 10,
     prob_presence_only = 0.05, prob_low = 0.10, prob_medium = 0.30,
     prob_high = 0.60, prob_critical = 0.80 \<rparr>"

record Coord3D =
  x :: real
  y :: real
  z :: real

record Velocity3D =
  vx :: real
  vy :: real
  vz :: real

text \<open>
  A \<open>datetime\<close> value: year, month, day, hour, minute, second, microsecond and the
  UTC offset in seconds of an aware value (\<open>None\<close> for a naive one).
\<close>

datatype datetime = Datetime nat nat nat nat nat nat nat "int option"

text \<open>The field \<open>id\<close> of BirdDetection is \<open>id_b\<close> here: \<open>id\<close> is the identity of HOL.\<close>

record BirdDetection =
  id_b :: string
  position :: Coord3D
  velocity :: Velocity3D
  timestamp :: datetime
  confidence :: real

record AircraftState =
  callsign :: string
  position :: Coord3D
  velocity :: Velocity3D
  heading_deg :: real
  altitude_agl_m :: real
  timestamp :: datetime

datatype RiskLevel = NONE | LOW | MEDIUM | HIGH | CRITICAL

datatype ActionType =
  MAINTAIN | SLOW_DOWN | CLIMB | DESCEND | TURN_LEFT | TURN_RIGHT | HOLD | ABORT_MISSION

record RiskAssessment =
  risk_level :: RiskLevel
  collision_probability :: real
  time_to_conflict_s :: "real option"
  most_threatening_bird_id :: "string option"
  rationale :: string
  decision_id :: string
  input_hash :: string
  engine_version :: string
  config_version :: string

record ActionRecommendation =
  action :: ActionType
  urgency :: RiskLevel
  rationale :: string
  requires_human_approval :: bool

record RiskQuery =
  aircraft :: AircraftState
  birds :: "BirdDetection list"

text \<open>
  The exceptions the engine can raise. Constructing a pydantic model validates its fields
  and raises on a violation; the only model the engine constructs from computed values
  whose constraint depends on a value is RiskAssessment, with
  \<open>collision_probability: float = Field(ge=0.0, le=1.0)\<close>. Float \<open>**\<close> raises OverflowError
  when its result is out of range, and float \<open>/\<close> raises ZeroDivisionError on a zero divisor.
\<close>

datatype error = ValidationError | OverflowError | ZeroDivisionError

definition RiskAssessment_init ::
  "RiskLevel \<Rightarrow> real \<Rightarrow> real option \<Rightarrow> string option \<Rightarrow> string \<Rightarrow> string \<Rightarrow> string \<Rightarrow>
   string \<Rightarrow> string \<Rightarrow> error + RiskAssessment" where
  "RiskAssessment_init level prob ttc bird_id reason did ihash ev cv =
     (if 0 \<le> prob \<and> prob \<le> 1
      then Inr \<lparr> risk_level = level, collision_probability = prob,
                 time_to_conflict_s = ttc, most_threatening_bird_id = bird_id,
                 RiskAssessment.rationale = reason, decision_id = did, input_hash = ihash,
                 engine_version = ev, config_version = cv \<rparr>
      else Inl ValidationError)"

section \<open>Library functions the engine calls\<close>

text \<open>
  What the Python runtime provides and app.py only calls is a parameter of the model.
  Float arithmetic: \<open>float_sub\<close> and \<open>float_add\<close> are \<open>-\<close> and \<open>+\<close>, \<open>float_pow\<close> is \<open>**\<close>
  with \<open>None\<close> where it raises OverflowError, \<open>float_truediv\<close> is \<open>/\<close> on a divisor other
  than zero. The engine applies \<open>** 0.5\<close> to sums of squares only, which are not negative,
  so the result is a float. Text: \<open>float_repr\<close> is the text json.dumps writes for a float, \<open>format_1f\<close> is
  the format \<open>:.1f\<close>, \<open>str_datetime\<close> is \<open>str\<close> on a datetime, \<open>encode_basestring_ascii\<close>
  is the quoted and escaped JSON text of a string, \<open>sha256_hexdigest\<close> is
  \<open>hashlib.sha256(bytes).hexdigest()\<close>.
\<close>

record py_runtime =
  float_sub :: "real \<Rightarrow> real \<Rightarrow> real"
  float_add :: "real \<Rightarrow> real \<Rightarrow> real"
  float_pow :: "real \<Rightarrow> real \<Rightarrow> real option"
  float_truediv :: "real \<Rightarrow> real \<Rightarrow> real"
  float_repr :: "real \<Rightarrow> string"
  format_1f :: "real \<Rightarrow> string"
  str_datetime :: "datetime \<Rightarrow> string"
  encode_basestring_ascii :: "string \<Rightarrow> string"
  sha256_hexdigest :: "string \<Rightarrow> string"

text \<open>The operators that can raise, and the propagation of an exception.\<close>

definition py_pow :: "py_runtime \<Rightarrow> real \<Rightarrow> real \<Rightarrow> error + real" where
  "py_pow rt a b = (case float_pow rt a b of None \<Rightarrow> Inl OverflowError | Some r \<Rightarrow> Inr r)"

definition py_truediv :: "py_runtime \<Rightarrow> real \<Rightarrow> real \<Rightarrow> error + real" where
  "py_truediv rt a b = (if b = 0 then Inl ZeroDivisionError else Inr (float_truediv rt a b))"

definition and_then :: "error + 'a \<Rightarrow> ('a \<Rightarrow> error + 'b) \<Rightarrow> error + 'b" where
  "and_then m f = (case m of Inl e \<Rightarrow> Inl e | Inr v \<Rightarrow> f v)"

section \<open>Canonical serialisation and the input hash\<close>

text \<open>
  The value of \<open>query.dict()\<close>: nested dictionaries whose items stand in the order the
  fields are declared, floats, strings, datetimes and a list.
\<close>

datatype json =
  JFloat real
  | JString string
  | JDatetime datetime
  | JList "json list"
  | JDict "(string \<times> json) list"

definition Coord3D_dict :: "Coord3D \<Rightarrow> json" where
  "Coord3D_dict p = JDict [(''x'', JFloat (x p)), (''y'', JFloat (y p)), (''z'', JFloat (z p))]"

definition Velocity3D_dict :: "Velocity3D \<Rightarrow> json" where
  "Velocity3D_dict v =
     JDict [(''vx'', JFloat (vx v)), (''vy'', JFloat (vy v)), (''vz'', JFloat (vz v))]"

definition BirdDetection_dict :: "BirdDetection \<Rightarrow> json" where
  "BirdDetection_dict b =
     JDict [(''id'', JString (id_b b)),
            (''position'', Coord3D_dict (BirdDetection.position b)),
            (''velocity'', Velocity3D_dict (BirdDetection.velocity b)),
            (''timestamp'', JDatetime (BirdDetection.timestamp b)),
            (''confidence'', JFloat (confidence b))]"

definition AircraftState_dict :: "AircraftState \<Rightarrow> json" where
  "AircraftState_dict a =
     JDict [(''callsign'', JString (callsign a)),
            (''position'', Coord3D_dict (AircraftState.position a)),
            (''velocity'', Velocity3D_dict (AircraftState.velocity a)),
            (''heading_deg'', JFloat (heading_deg a)),
            (''altitude_agl_m'', JFloat (altitude_agl_m a)),
            (''timestamp'', JDatetime (AircraftState.timestamp a))]"

definition RiskQuery_dict :: "RiskQuery \<Rightarrow> json" where
  "RiskQuery_dict q =
     JDict [(''aircraft'', AircraftState_dict (aircraft q)),
            (''birds'', JList (map BirdDetection_dict (birds q)))]"

fun join :: "string \<Rightarrow> string list \<Rightarrow> string" where
  "join sep [] = []"
| "join sep [s] = s"
| "join sep (s # t # ts) = s @ sep @ join sep (t # ts)"

text \<open>
  \<open>json.dumps(v, sort_keys=True, default=str)\<close> with the default separators: the items of
  a dictionary are sorted by key, the elements of a list keep their order, and a datetime,
  which json cannot serialise, goes through \<open>str\<close> and is written as a string.
\<close>

function json_dumps :: "py_runtime \<Rightarrow> json \<Rightarrow> string" where
  "json_dumps rt (JFloat r) = float_repr rt r"
| "json_dumps rt (JString s) = encode_basestring_ascii rt s"
| "json_dumps rt (JDatetime t) = encode_basestring_ascii rt (str_datetime rt t)"
| "json_dumps rt (JList vs) = ''['' @ join '', '' (map (json_dumps rt) vs) @ '']''"
| "json_dumps rt (JDict kvs) =
     ''{'' @ join '', ''
        (map (\<lambda>kv. encode_basestring_ascii rt (fst kv) @ '': '' @ json_dumps rt (snd kv))
           (sort_key fst kvs)) @ ''}''"
  by pat_completeness auto
termination
proof (relation "measure (\<lambda>(rt, v). size v)")
  show "wf (measure (\<lambda>(rt :: py_runtime, v :: json). size v))" by simp
next
  fix rt :: py_runtime and vs :: "json list" and v :: json
  assume "v \<in> set vs"
  then have "size v < Suc (size_list size vs)"
    by (induction vs) auto
  then show "((rt, v), (rt, JList vs)) \<in> measure (\<lambda>(rt, v). size v)" by simp
next
  fix rt :: py_runtime and kvs :: "(string \<times> json) list" and kv :: "string \<times> json"
  assume "kv \<in> set (sort_key fst kvs)"
  then have "kv \<in> set kvs" by simp
  then have "size (snd kv) < Suc (size_list (size_prod (\<lambda>k. 0) size) kvs)"
    by (induction kvs) auto
  then show "((rt, snd kv), (rt, JDict kvs)) \<in> measure (\<lambda>(rt, v). size v)"
    by simp
qed

definition compute_input_hash :: "py_runtime \<Rightarrow> RiskQuery \<Rightarrow> string" where
  "compute_input_hash rt query =
     (let encoded = json_dumps rt (RiskQuery_dict query)
      in sha256_hexdigest rt encoded)"

section \<open>Kinematics\<close>

definition estimate_time_to_conflict ::
  "py_runtime \<Rightarrow> AircraftState \<Rightarrow> BirdDetection \<Rightarrow> RiskConfig \<Rightarrow> error + real option" where
  "estimate_time_to_conflict rt ac bird config =
     (let relative_vx = float_sub rt (vx (AircraftState.velocity ac)) (vx (BirdDetection.velocity bird));
          relative_vy = float_sub rt (vy (AircraftState.velocity ac)) (vy (BirdDetection.velocity bird));
          relative_vz = float_sub rt (vz (AircraftState.velocity ac)) (vz (BirdDetection.velocity bird))
      in and_then (py_pow rt relative_vx 2) (\<lambda>sx.
         and_then (py_pow rt relative_vy 2) (\<lambda>sy.
         and_then (py_pow rt relative_vz 2) (\<lambda>sz.
         and_then (py_pow rt (float_add rt (float_add rt sx sy) sz) (1 / 2)) (\<lambda>relative_speed.
           if relative_speed < 1 / 1000 then Inr None
           else
             let dx = float_sub rt (x (AircraftState.position ac)) (x (BirdDetection.position bird));
                 dy = float_sub rt (y (AircraftState.position ac)) (y (BirdDetection.position bird));
                 dz = float_sub rt (z (AircraftState.position ac)) (z (BirdDetection.position bird))
             in and_then (py_pow rt dx 2) (\<lambda>qx.
                and_then (py_pow rt dy 2) (\<lambda>qy.
                and_then (py_pow rt dz 2) (\<lambda>qz.
                and_then (py_pow rt (float_add rt (float_add rt qx qy) qz) (1 / 2)) (\<lambda>distance.
                  if distance > distance_threshold_m config then Inr None
                  else
                    and_then (py_truediv rt distance relative_speed) (\<lambda>raw_ttc.
                      let ttc = max (min_ttc_s config) (min (max_ttc_s config) raw_ttc)
                      in Inr (Some ttc)))))))))))"

text \<open>
  The locals \<open>relative_speed\<close> and \<open>distance\<close> of estimate_time_to_conflict as the runtime
  computes them, named so that statements about the function can speak of them.
\<close>

definition relative_speed :: "py_runtime \<Rightarrow> AircraftState \<Rightarrow> BirdDetection \<Rightarrow> error + real" where
  "relative_speed rt ac bird =
     and_then (py_pow rt (float_sub rt (vx (AircraftState.velocity ac)) (vx (BirdDetection.velocity bird))) 2) (\<lambda>sx.
     and_then (py_pow rt (float_sub rt (vy (AircraftState.velocity ac)) (vy (BirdDetection.velocity bird))) 2) (\<lambda>sy.
     and_then (py_pow rt (float_sub rt (vz (AircraftState.velocity ac)) (vz (BirdDetection.velocity bird))) 2) (\<lambda>sz.
     py_pow rt (float_add rt (float_add rt sx sy) sz) (1 / 2))))"

definition distance :: "py_runtime \<Rightarrow> AircraftState \<Rightarrow> BirdDetection \<Rightarrow> error + real" where
  "distance rt ac bird =
     and_then (py_pow rt (float_sub rt (x (AircraftState.position ac)) (x (BirdDetection.position bird))) 2) (\<lambda>qx.
     and_then (py_pow rt (float_sub rt (y (AircraftState.position ac)) (y (BirdDetection.position bird))) 2) (\<lambda>qy.
     and_then (py_pow rt (float_sub rt (z (AircraftState.position ac)) (z (BirdDetection.position bird))) 2) (\<lambda>qz.
     py_pow rt (float_add rt (float_add rt qx qy) qz) (1 / 2))))"

section \<open>Risk engine\<close>

text \<open>
  The loop of evaluate_risk over \<open>query.birds\<close>; its state is the pair
  \<open>(best_ttc, best_bird)\<close>, both \<open>None\<close> at the start. An exception raised by
  estimate_time_to_conflict ends the loop and the call.
\<close>

fun scan_birds ::
  "py_runtime \<Rightarrow> AircraftState \<Rightarrow> RiskConfig \<Rightarrow> BirdDetection list \<Rightarrow>
   real option \<times> BirdDetection option \<Rightarrow> error + real option \<times> BirdDetection option" where
  "scan_birds rt ac config [] (best_ttc, best_bird) = Inr (best_ttc, best_bird)"
| "scan_birds rt ac config (b # bs) (best_ttc, best_bird) =
     (case estimate_time_to_conflict rt ac b config of
        Inl e \<Rightarrow> Inl e
      | Inr None \<Rightarrow> scan_birds rt ac config bs (best_ttc, best_bird)
      | Inr (Some ttc) \<Rightarrow>
          if (case best_ttc of None \<Rightarrow> True | Some bt \<Rightarrow> ttc < bt)
          then scan_birds rt ac config bs (Some ttc, Some b)
          else scan_birds rt ac config bs (best_ttc, best_bird))"

text \<open>The mapping from the best TTC to a risk band and its nominal probability.\<close>

definition risk_band :: "RiskConfig \<Rightarrow> real \<Rightarrow> RiskLevel \<times> real" where
  "risk_band config best_ttc =
     (if best_ttc \<ge> ttc_low_threshold_s config then (LOW, prob_low config)
      else if best_ttc \<ge> ttc_medium_threshold_s config then (MEDIUM, prob_medium config)
      else if best_ttc \<ge> ttc_high_threshold_s config then (HIGH, prob_high config)
      else (CRITICAL, prob_critical config))"

text \<open>
  \<open>uuid4\<close> is the text of the fresh \<open>uuid.uuid4()\<close> of the call. The calls of
  \<open>logger.info\<close> write a log record and do not change the result.
\<close>

definition evaluate_risk ::
  "py_runtime \<Rightarrow> string \<Rightarrow> RiskQuery \<Rightarrow> RiskConfig \<Rightarrow> error + RiskAssessment" where
  "evaluate_risk rt uuid4 query config =
     (let ihash = compute_input_hash rt query;
          did = uuid4
      in if birds query = []
         then RiskAssessment_init NONE 0 None None
                ''No birds in current surveillance volume.''
                did ihash ENGINE_VERSION (version config)
         else
           (case scan_birds rt (aircraft query) config (birds query) (None, None) of
              Inl e \<Rightarrow> Inl e
            | Inr (Some best_ttc, Some best_bird) \<Rightarrow>
                (let (level, prob) = risk_band config best_ttc
                 in RiskAssessment_init level prob (Some best_ttc) (Some (id_b best_bird))
                      (''Closest projected conflict with bird '' @ id_b best_bird @ '' in ~''
                         @ format_1f rt best_ttc
                         @ ''s using linear relative motion and heuristic TTC risk bands.'')
                      did ihash ENGINE_VERSION (version config))
            | Inr _ \<Rightarrow>
                RiskAssessment_init LOW (prob_presence_only config) None None
                  ''Birds present but no projected near-term conflicts within configured thresholds.''
                  did ihash ENGINE_VERSION (version config)))"

section \<open>Planner\<close>

definition plan_action :: "RiskAssessment \<Rightarrow> ActionRecommendation" where
  "plan_action assessment =
     (if risk_level assessment \<in> {NONE, LOW}
      then \<lparr> action = MAINTAIN, urgency = risk_level assessment,
             ActionRecommendation.rationale =
               ''Risk is NONE/LOW. Maintain current trajectory with monitoring.'',
             requires_human_approval = False \<rparr>
      else if risk_level assessment = MEDIUM
      then \<lparr> action = SLOW_DOWN, urgency = MEDIUM,
             ActionRecommendation.rationale =
               ''Medium near-term risk. Recommend speed reduction and altitude review.'',
             requires_human_approval = True \<rparr>
      else if risk_level assessment = HIGH
      then \<lparr> action = TURN_RIGHT, urgency = HIGH,
             ActionRecommendation.rationale =
               ''High risk of conflict. Recommend lateral deviation away from threat vector.'',
             requires_human_approval = True \<rparr>
      else \<lparr> action = ABORT_MISSION, urgency = CRITICAL,
             ActionRecommendation.rationale =
               ''Critical near-term conflict predicted. Recommend immediate abort / escape.'',
             requires_human_approval = True \<rparr>)"

section \<open>Example inputs\<close>

text \<open>
  Concrete values on which the theorems below are evaluated. \<open>demo_runtime\<close> computes
  with exact arithmetic on the reals and raises the OverflowError of \<open>**\<close> above the largest
  finite float, \<open>float_max\<close>; on the operands of the examples (integers of small size and
  \<open>2 ^ 600\<close>) the float operations of Python give the same results. The theorems hold for
  every runtime.
\<close>

definition float_max :: real where
  "float_max = (2 ^ 53 - 1) * 2 ^ 971"

definition demo_runtime :: py_runtime where
  "demo_runtime = \<lparr>
     float_sub = (\<lambda>a b. a - b),
     float_add = (\<lambda>a b. a + b),
     float_pow = (\<lambda>a b. if b = 2 then (if a\<^sup>2 > float_max then None else Some (a\<^sup>2))
                         else if b = 1 / 2 then Some (sqrt a) else Some (a powr b)),
     float_truediv = (\<lambda>a b. a / b),
     float_repr = (\<lambda>r. ''0.0''), format_1f = (\<lambda>r. ''0.0''),
     str_datetime = (\<lambda>t. ''2025-11-30 12:00:00''),
     encode_basestring_ascii = (\<lambda>s. [CHR 0x22] @ s @ [CHR 0x22]),
     sha256_hexdigest = (\<lambda>s. s) \<rparr>"

definition demo_aircraft :: AircraftState where
  "demo_aircraft = \<lparr> callsign = ''N100'',
     AircraftState.position = \<lparr> x = 0, y = 0, z = 100 \<rparr>,
     AircraftState.velocity = \<lparr> vx = 50, vy = 0, vz = 0 \<rparr>,
     heading_deg = 90, altitude_agl_m = 100,
     AircraftState.timestamp = Datetime 2025 11 30 12 0 0 0 None \<rparr>"

definition demo_bird :: "string \<Rightarrow> real \<Rightarrow> BirdDetection" where
  "demo_bird name px = \<lparr> id_b = name,
     BirdDetection.position = \<lparr> x = px, y = 0, z = 100 \<rparr>,
     BirdDetection.velocity = \<lparr> vx = 0, vy = 0, vz = 0 \<rparr>,
     BirdDetection.timestamp = Datetime 2025 11 30 12 0 0 0 None,
     confidence = 0.9 \<rparr>"

definition demo_assessment :: "RiskLevel \<Rightarrow> RiskAssessment" where
  "demo_assessment l = \<lparr> risk_level = l, collision_probability = 0.8,
     time_to_conflict_s = Some 8, most_threatening_bird_id = Some ''b1'',
     RiskAssessment.rationale = ''r'', decision_id = ''d'', input_hash = ''h'',
     engine_version = ENGINE_VERSION, config_version = ''v'' \<rparr>"

definition demo_query :: "BirdDetection list \<Rightarrow> RiskQuery" where
  "demo_query bs = \<lparr> aircraft = demo_aircraft, birds = bs \<rparr>"

text \<open>
  Float arithmetic is exact where the exact result is a float, as IEEE 754 requires of
  \<open>+\<close>, \<open>-\<close> and \<open>/\<close>; integers up to \<open>2 ^ 53\<close> in absolute value are floats. The
  runtimes that compute exactly on such integers:
\<close>

definition exact_on_integers :: "py_runtime \<Rightarrow> bool" where
  "exact_on_integers rt \<longleftrightarrow>
     (\<forall>a b. a \<in> \<int> \<and> b \<in> \<int> \<and> \<bar>a\<bar> \<le> 2 ^ 53 \<and> \<bar>b\<bar> \<le> 2 ^ 53 \<and> \<bar>a - b\<bar> \<le> 2 ^ 53 \<longrightarrow>
        float_sub rt a b = a - b) \<and>
     (\<forall>a b. a \<in> \<int> \<and> b \<in> \<int> \<and> \<bar>a\<bar> \<le> 2 ^ 53 \<and> \<bar>b\<bar> \<le> 2 ^ 53 \<and> \<bar>a + b\<bar> \<le> 2 ^ 53 \<longrightarrow>
        float_add rt a b = a + b) \<and>
     (\<forall>a. a \<in> \<int> \<and> a\<^sup>2 \<le> 2 ^ 53 \<longrightarrow> float_pow rt a 2 = Some (a\<^sup>2)) \<and>
     (\<forall>a. a \<in> \<int> \<and> 0 \<le> a \<and> a\<^sup>2 \<le> 2 ^ 53 \<longrightarrow> float_pow rt (a\<^sup>2) (1 / 2) = Some a) \<and>
     (\<forall>a b. a \<in> \<int> \<and> b \<in> \<int> \<and> b \<noteq> 0 \<and> a / b \<in> \<int> \<and> \<bar>a\<bar> \<le> 2 ^ 53 \<and> \<bar>b\<bar> \<le> 2 ^ 53 \<longrightarrow>
        float_truediv rt a b = a / b)"

section \<open>Exceptions and arithmetic facts\<close>

lemma and_then_Inl [simp]: "and_then (Inl e) f = Inl e"
  by (simp add: and_then_def)

lemma and_then_Inr [simp]: "and_then (Inr v) f = f v"
  by (simp add: and_then_def)

lemma and_then_error:
  "and_then m f = Inl e \<Longrightarrow> m = Inl e \<or> (\<exists>v. m = Inr v \<and> f v = Inl e)"
  by (cases m) simp_all

lemma py_pow_error: "py_pow rt a b = Inl e \<Longrightarrow> e = OverflowError"
  by (auto simp add: py_pow_def split: option.splits)

lemma sqrt_2500: "sqrt 2500 = 50"
  by (rule real_sqrt_unique) simp_all

lemma sqrt_160000: "sqrt 160000 = 400"
  by (rule real_sqrt_unique) simp_all

lemma sqrt_4000000: "sqrt 4000000 = 2000"
  by (rule real_sqrt_unique) simp_all

lemma float_max_ge: "2 ^ 53 \<le> float_max"
  by (simp add: float_max_def)

lemma demo_pow2:
  "a\<^sup>2 \<le> 2 ^ 53 \<Longrightarrow> py_pow demo_runtime a 2 = Inr (a\<^sup>2)"
  using float_max_ge by (simp add: py_pow_def demo_runtime_def)


lemma demo_pow_half: "py_pow demo_runtime a (1 / 2) = Inr (sqrt a)"
  by (simp add: py_pow_def demo_runtime_def)

lemma demo_sub [simp]: "float_sub demo_runtime a b = a - b"
  by (simp add: demo_runtime_def)

lemma demo_add [simp]: "float_add demo_runtime a b = a + b"
  by (simp add: demo_runtime_def)

lemma demo_truediv [simp]: "float_truediv demo_runtime a b = a / b"
  by (simp add: demo_runtime_def)

lemma demo_exact: "exact_on_integers demo_runtime"
  using float_max_ge
  by (auto simp add: exact_on_integers_def demo_runtime_def)

section \<open>Planner: the table of plan_action\<close>

text \<open>
  C6. plan_action depends on the risk level of the assessment only: NONE and LOW give
  MAINTAIN without human approval, MEDIUM gives SLOW_DOWN, HIGH gives TURN_RIGHT and CRITICAL
  gives ABORT_MISSION, each with human approval; the urgency is the risk level of the input.
\<close>

theorem plan_action_table:
  "(risk_level r \<in> {NONE, LOW} \<longrightarrow>
      action (plan_action r) = MAINTAIN \<and> \<not> requires_human_approval (plan_action r)) \<and>
   (risk_level r = MEDIUM \<longrightarrow>
      action (plan_action r) = SLOW_DOWN \<and> requires_human_approval (plan_action r)) \<and>
   (risk_level r = HIGH \<longrightarrow>
      action (plan_action r) = TURN_RIGHT \<and> requires_human_approval (plan_action r)) \<and>
   (risk_level r = CRITICAL \<longrightarrow>
      action (plan_action r) = ABORT_MISSION \<and> requires_human_approval (plan_action r)) \<and>
   urgency (plan_action r) = risk_level r \<and>
   (\<forall>r'. risk_level r' = risk_level r \<longrightarrow> plan_action r' = plan_action r)"
  by (cases "risk_level r") (simp_all add: plan_action_def)

theorem plan_action_table_witness:
  "risk_level (demo_assessment CRITICAL) = CRITICAL \<and>
   action (plan_action (demo_assessment CRITICAL)) = ABORT_MISSION \<and>
   requires_human_approval (plan_action (demo_assessment CRITICAL)) \<and>
   risk_level (demo_assessment LOW) \<in> {NONE, LOW} \<and>
   action (plan_action (demo_assessment LOW)) = MAINTAIN \<and>
   \<not> requires_human_approval (plan_action (demo_assessment LOW))"
proof -
  have c: "risk_level (demo_assessment CRITICAL) = CRITICAL"
    and l: "risk_level (demo_assessment LOW) \<in> {NONE, LOW}"
    by (simp_all add: demo_assessment_def)
  from c plan_action_table [of "demo_assessment CRITICAL"]
  have "action (plan_action (demo_assessment CRITICAL)) = ABORT_MISSION \<and>
        requires_human_approval (plan_action (demo_assessment CRITICAL))"
    by blast
  moreover from l plan_action_table [of "demo_assessment LOW"]
  have "action (plan_action (demo_assessment LOW)) = MAINTAIN \<and>
        \<not> requires_human_approval (plan_action (demo_assessment LOW))"
    by blast
  ultimately show ?thesis using c l by blast
qed

section \<open>Risk engine: banding\<close>

text \<open>
  C1. The banding step tests the thresholds low, medium, high in this order with \<open>\<ge>\<close>
  and the first match wins. When the thresholds are strictly descending and positive, every
  TTC falls into exactly one of LOW, MEDIUM, HIGH and CRITICAL, the bands are the intervals
  between the thresholds, a TTC equal to a threshold is in the less severe band, a TTC under
  the high threshold is CRITICAL, and the probability is the one configured for the band.
\<close>

theorem risk_band_first_match:
  "(t \<ge> ttc_low_threshold_s c \<longrightarrow> risk_band c t = (LOW, prob_low c)) \<and>
   (\<not> t \<ge> ttc_low_threshold_s c \<and> t \<ge> ttc_medium_threshold_s c \<longrightarrow>
      risk_band c t = (MEDIUM, prob_medium c)) \<and>
   (\<not> t \<ge> ttc_low_threshold_s c \<and> \<not> t \<ge> ttc_medium_threshold_s c \<and>
    t \<ge> ttc_high_threshold_s c \<longrightarrow> risk_band c t = (HIGH, prob_high c)) \<and>
   (\<not> t \<ge> ttc_low_threshold_s c \<and> \<not> t \<ge> ttc_medium_threshold_s c \<and>
    \<not> t \<ge> ttc_high_threshold_s c \<longrightarrow> risk_band c t = (CRITICAL, prob_critical c)) \<and>
   (ttc_low_threshold_s c > ttc_medium_threshold_s c \<and>
    ttc_medium_threshold_s c > ttc_high_threshold_s c \<and> ttc_high_threshold_s c > 0 \<longrightarrow>
      fst (risk_band c t) \<noteq> NONE \<and>
      (fst (risk_band c t) = LOW) = (ttc_low_threshold_s c \<le> t) \<and>
      (fst (risk_band c t) = MEDIUM) = (ttc_medium_threshold_s c \<le> t \<and> t < ttc_low_threshold_s c) \<and>
      (fst (risk_band c t) = HIGH) = (ttc_high_threshold_s c \<le> t \<and> t < ttc_medium_threshold_s c) \<and>
      (fst (risk_band c t) = CRITICAL) = (t < ttc_high_threshold_s c) \<and>
      risk_band c (ttc_low_threshold_s c) = (LOW, prob_low c) \<and>
      risk_band c (ttc_medium_threshold_s c) = (MEDIUM, prob_medium c) \<and>
      risk_band c (ttc_high_threshold_s c) = (HIGH, prob_high c))"
  by (auto simp add: risk_band_def)

theorem risk_band_first_match_witness:
  "ttc_low_threshold_s RISK_CONFIG > ttc_medium_threshold_s RISK_CONFIG \<and>
   ttc_medium_threshold_s RISK_CONFIG > ttc_high_threshold_s RISK_CONFIG \<and>
   ttc_high_threshold_s RISK_CONFIG > 0 \<and>
   fst (risk_band RISK_CONFIG 30) = MEDIUM \<and>
   fst (risk_band RISK_CONFIG 8) = CRITICAL \<and>
   risk_band RISK_CONFIG (ttc_high_threshold_s RISK_CONFIG) = (HIGH, prob_high RISK_CONFIG)"
proof -
  have d: "ttc_low_threshold_s RISK_CONFIG > ttc_medium_threshold_s RISK_CONFIG \<and>
           ttc_medium_threshold_s RISK_CONFIG > ttc_high_threshold_s RISK_CONFIG \<and>
           ttc_high_threshold_s RISK_CONFIG > 0"
    by (simp add: RISK_CONFIG_def)
  have m: "ttc_medium_threshold_s RISK_CONFIG \<le> 30 \<and> 30 < ttc_low_threshold_s RISK_CONFIG"
    by (simp add: RISK_CONFIG_def)
  have k: "8 < ttc_high_threshold_s RISK_CONFIG"
    by (simp add: RISK_CONFIG_def)
  from d m risk_band_first_match [where t = 30 and c = RISK_CONFIG]
  have "fst (risk_band RISK_CONFIG 30) = MEDIUM" by blast
  moreover from d k risk_band_first_match [where t = 8 and c = RISK_CONFIG]
  have "fst (risk_band RISK_CONFIG 8) = CRITICAL" by blast
  moreover from d risk_band_first_match [where t = 8 and c = RISK_CONFIG]
  have "risk_band RISK_CONFIG (ttc_high_threshold_s RISK_CONFIG) = (HIGH, prob_high RISK_CONFIG)"
    by blast
  ultimately show ?thesis using d by blast
qed

section \<open>Kinematics: exceptions, gates and the clamp\<close>

lemma relative_speed_error: "relative_speed rt ac b = Inl e \<Longrightarrow> e = OverflowError"
  unfolding relative_speed_def
  by (auto dest!: and_then_error dest: py_pow_error)

lemma distance_error: "distance rt ac b = Inl e \<Longrightarrow> e = OverflowError"
  unfolding distance_def
  by (auto dest!: and_then_error dest: py_pow_error)

lemma ettc_unfold:
  "estimate_time_to_conflict rt ac b c =
     and_then (relative_speed rt ac b) (\<lambda>s.
       if s < 1 / 1000 then Inr None
       else and_then (distance rt ac b) (\<lambda>d.
         if d > distance_threshold_m c then Inr None
         else and_then (py_truediv rt d s) (\<lambda>raw.
           Inr (Some (max (min_ttc_s c) (min (max_ttc_s c) raw))))))"
  by (simp add: estimate_time_to_conflict_def relative_speed_def distance_def Let_def
        and_then_def split: sum.splits)

lemma ettc_error:
  assumes "estimate_time_to_conflict rt ac b c = Inl e"
  shows "e = OverflowError"
proof (cases "relative_speed rt ac b")
  case (Inl e')
  with assms show ?thesis by (auto simp add: ettc_unfold dest: relative_speed_error)
next
  case (Inr s)
  show ?thesis
  proof (cases "distance rt ac b")
    case (Inl e')
    with Inr assms show ?thesis
      by (auto simp add: ettc_unfold split: if_splits dest: distance_error)
  next
    case d: (Inr d)
    with Inr assms show ?thesis
      by (auto simp add: ettc_unfold py_truediv_def split: if_splits)
  qed
qed

lemma demo_speed: "relative_speed demo_runtime demo_aircraft (demo_bird n px) = Inr 50"
  by (simp add: relative_speed_def demo_aircraft_def demo_bird_def demo_pow2 demo_pow_half sqrt_2500)

lemma demo_distance_400: "distance demo_runtime demo_aircraft (demo_bird n 400) = Inr 400"
  by (simp add: distance_def demo_aircraft_def demo_bird_def demo_pow2 demo_pow_half sqrt_160000)

lemma demo_distance_2000: "distance demo_runtime demo_aircraft (demo_bird n 2000) = Inr 2000"
  by (simp add: distance_def demo_aircraft_def demo_bird_def demo_pow2 demo_pow_half sqrt_4000000)


lemma demo_ettc_400 [simp]:
  "estimate_time_to_conflict demo_runtime demo_aircraft (demo_bird n 400) RISK_CONFIG = Inr (Some 8)"
  by (simp add: ettc_unfold demo_speed demo_distance_400 py_truediv_def RISK_CONFIG_def)

lemma demo_ettc_2000:
  "estimate_time_to_conflict demo_runtime demo_aircraft (demo_bird n 2000) c =
     (if 2000 > distance_threshold_m c then Inr None
      else Inr (Some (max (min_ttc_s c) (min (max_ttc_s c) 40))))"
  by (simp add: ettc_unfold demo_speed demo_distance_2000 py_truediv_def)

lemma demo_ettc_far:
  "estimate_time_to_conflict demo_runtime demo_aircraft (demo_bird n 2000) RISK_CONFIG = Inr None"
  by (simp add: demo_ettc_2000 RISK_CONFIG_def)





section \<open>Risk engine: the loop over the birds\<close>

lemma scan_birds_none:
  "\<forall>b\<in>set bs. estimate_time_to_conflict rt ac b c = Inr None \<Longrightarrow>
   scan_birds rt ac c bs st = Inr st"
  by (induction bs arbitrary: st) (auto split: prod.splits)

lemma scan_birds_raises:
  "\<exists>b\<in>set bs. \<exists>e. estimate_time_to_conflict rt ac b c = Inl e \<Longrightarrow>
   scan_birds rt ac c bs st = Inl OverflowError"
proof (induction bs arbitrary: st)
  case Nil
  then show ?case by simp
next
  case (Cons b1 bs)
  obtain bt bb where st: "st = (bt, bb)" by (cases st)
  show ?case
  proof (cases "estimate_time_to_conflict rt ac b1 c")
    case (Inl e)
    then have "e = OverflowError" by (rule ettc_error)
    with Inl st show ?thesis by simp
  next
    case (Inr v)
    with Cons.prems have "\<exists>b\<in>set bs. \<exists>e. estimate_time_to_conflict rt ac b c = Inl e"
      by auto
    from Cons.IH [OF this] Inr st show ?thesis
      by (cases v) simp_all
  qed
qed

lemma scan_birds_acc:
  assumes "\<forall>b\<in>set bs. \<exists>v. estimate_time_to_conflict rt ac b c = Inr v"
  shows "\<exists>t b. scan_birds rt ac c bs (Some t0, Some b0) = Inr (Some t, Some b) \<and> t \<le> t0 \<and>
     (\<forall>b'\<in>set bs. \<forall>t'. estimate_time_to_conflict rt ac b' c = Inr (Some t') \<longrightarrow> t \<le> t') \<and>
     ((t = t0 \<and> b = b0) \<or>
      (t < t0 \<and> find (\<lambda>b'. estimate_time_to_conflict rt ac b' c = Inr (Some t)) bs = Some b))"
  using assms
proof (induction bs arbitrary: t0 b0)
  case Nil
  then show ?case by simp
next
  case (Cons b1 bs)
  from Cons.prems have nr: "\<forall>b\<in>set bs. \<exists>v. estimate_time_to_conflict rt ac b c = Inr v"
    by simp
  from Cons.prems obtain v where v: "estimate_time_to_conflict rt ac b1 c = Inr v"
    by auto
  show ?case
  proof (cases v)
    case None
    with v Cons.IH [OF nr, of t0 b0] show ?thesis by auto
  next
    case (Some t1)
    show ?thesis
    proof (cases "t1 < t0")
      case True
      from Cons.IH [OF nr, of t1 b1] obtain t b where
        r: "scan_birds rt ac c bs (Some t1, Some b1) = Inr (Some t, Some b)" and le: "t \<le> t1" and
        lb: "\<forall>b'\<in>set bs. \<forall>t'. estimate_time_to_conflict rt ac b' c = Inr (Some t') \<longrightarrow> t \<le> t'" and
        d: "(t = t1 \<and> b = b1) \<or>
            (t < t1 \<and> find (\<lambda>b'. estimate_time_to_conflict rt ac b' c = Inr (Some t)) bs = Some b)"
        by blast
      from d v Some True le
      have "t < t0 \<and>
          find (\<lambda>b'. estimate_time_to_conflict rt ac b' c = Inr (Some t)) (b1 # bs) = Some b"
        by auto
      with r le lb v Some True show ?thesis by auto
    next
      case False
      from Cons.IH [OF nr, of t0 b0] obtain t b where
        r: "scan_birds rt ac c bs (Some t0, Some b0) = Inr (Some t, Some b)" and le: "t \<le> t0" and
        lb: "\<forall>b'\<in>set bs. \<forall>t'. estimate_time_to_conflict rt ac b' c = Inr (Some t') \<longrightarrow> t \<le> t'" and
        d: "(t = t0 \<and> b = b0) \<or>
            (t < t0 \<and> find (\<lambda>b'. estimate_time_to_conflict rt ac b' c = Inr (Some t)) bs = Some b)"
        by blast
      from d v Some False
      have "(t = t0 \<and> b = b0) \<or>
            (t < t0 \<and>
             find (\<lambda>b'. estimate_time_to_conflict rt ac b' c = Inr (Some t)) (b1 # bs) = Some b)"
        by auto
      with r le lb v Some False show ?thesis by auto
    qed
  qed
qed

lemma scan_birds_some:
  assumes "\<forall>b\<in>set bs. \<exists>v. estimate_time_to_conflict rt ac b c = Inr v"
    and "\<exists>b\<in>set bs. \<exists>t. estimate_time_to_conflict rt ac b c = Inr (Some t)"
  shows "\<exists>t b. scan_birds rt ac c bs (None, None) = Inr (Some t, Some b) \<and>
     (\<forall>b'\<in>set bs. \<forall>t'. estimate_time_to_conflict rt ac b' c = Inr (Some t') \<longrightarrow> t \<le> t') \<and>
     find (\<lambda>b'. estimate_time_to_conflict rt ac b' c = Inr (Some t)) bs = Some b"
  using assms
proof (induction bs)
  case Nil
  then show ?case by simp
next
  case (Cons b1 bs)
  from Cons.prems(1) have nr: "\<forall>b\<in>set bs. \<exists>v. estimate_time_to_conflict rt ac b c = Inr v"
    by simp
  from Cons.prems(1) obtain v where v: "estimate_time_to_conflict rt ac b1 c = Inr v"
    by auto
  show ?case
  proof (cases v)
    case None
    with v Cons.prems(2)
    have "\<exists>b\<in>set bs. \<exists>t. estimate_time_to_conflict rt ac b c = Inr (Some t)" by auto
    from Cons.IH [OF nr this] v None show ?thesis by auto
  next
    case (Some t1)
    from scan_birds_acc [OF nr, of t1 b1] obtain t b where
      r: "scan_birds rt ac c bs (Some t1, Some b1) = Inr (Some t, Some b)" and le: "t \<le> t1" and
      lb: "\<forall>b'\<in>set bs. \<forall>t'. estimate_time_to_conflict rt ac b' c = Inr (Some t') \<longrightarrow> t \<le> t'" and
      d: "(t = t1 \<and> b = b1) \<or>
          (t < t1 \<and> find (\<lambda>b'. estimate_time_to_conflict rt ac b' c = Inr (Some t)) bs = Some b)"
      by blast
    from d v Some
    have "find (\<lambda>b'. estimate_time_to_conflict rt ac b' c = Inr (Some t)) (b1 # bs) = Some b"
      by auto
    with r le lb v Some show ?thesis by auto
  qed
qed

lemma birds_cases:
  "(\<exists>b\<in>set bs. \<exists>e. estimate_time_to_conflict rt ac b c = Inl e) \<or>
   ((\<forall>b\<in>set bs. \<exists>v. estimate_time_to_conflict rt ac b c = Inr v) \<and>
    (\<exists>b\<in>set bs. \<exists>t. estimate_time_to_conflict rt ac b c = Inr (Some t))) \<or>
   (\<forall>b\<in>set bs. estimate_time_to_conflict rt ac b c = Inr None)"
proof (cases "\<exists>b\<in>set bs. \<exists>e. estimate_time_to_conflict rt ac b c = Inl e")
  case True
  then show ?thesis by blast
next
  case False
  then have nr: "\<forall>b\<in>set bs. \<exists>v. estimate_time_to_conflict rt ac b c = Inr v"
    by (metis sum.exhaust)
  show ?thesis
  proof (cases "\<exists>b\<in>set bs. \<exists>t. estimate_time_to_conflict rt ac b c = Inr (Some t)")
    case True
    with nr show ?thesis by blast
  next
    case nv: False
    have "\<forall>b\<in>set bs. estimate_time_to_conflict rt ac b c = Inr None"
    proof
      fix b assume b: "b \<in> set bs"
      with nr obtain v where v: "estimate_time_to_conflict rt ac b c = Inr v" by blast
      with nv b show "estimate_time_to_conflict rt ac b c = Inr None"
        by (cases v) auto
    qed
    then show ?thesis by blast
  qed
qed

text \<open>
  What evaluate_risk returns in each of its three branches, before the range check of
  the RiskAssessment constructor, and when the loop raises.
\<close>

lemma evaluate_risk_empty:
  "birds q = [] \<Longrightarrow>
   evaluate_risk rt d q c =
     RiskAssessment_init NONE 0 None None ''No birds in current surveillance volume.''
       d (compute_input_hash rt q) ENGINE_VERSION (version c)"
  by (simp add: evaluate_risk_def)

lemma evaluate_risk_raises:
  assumes "\<exists>b\<in>set (birds q). \<exists>e. estimate_time_to_conflict rt (aircraft q) b c = Inl e"
  shows "evaluate_risk rt d q c = Inl OverflowError"
proof -
  from assms have "birds q \<noteq> []" by auto
  with scan_birds_raises [OF assms, of "(None, None)"] show ?thesis
    by (simp add: evaluate_risk_def)
qed

lemma evaluate_risk_presence:
  assumes "birds q \<noteq> []"
    and "\<forall>b\<in>set (birds q). estimate_time_to_conflict rt (aircraft q) b c = Inr None"
  shows "evaluate_risk rt d q c =
     RiskAssessment_init LOW (prob_presence_only c) None None
       ''Birds present but no projected near-term conflicts within configured thresholds.''
       d (compute_input_hash rt q) ENGINE_VERSION (version c)"
  using assms by (simp add: evaluate_risk_def scan_birds_none)

lemma evaluate_risk_conflict:
  assumes "\<forall>b\<in>set (birds q). \<exists>v. estimate_time_to_conflict rt (aircraft q) b c = Inr v"
    and "\<exists>b\<in>set (birds q). \<exists>t. estimate_time_to_conflict rt (aircraft q) b c = Inr (Some t)"
  shows "\<exists>t b. scan_birds rt (aircraft q) c (birds q) (None, None) = Inr (Some t, Some b) \<and>
     (\<forall>b'\<in>set (birds q). \<forall>t'.
        estimate_time_to_conflict rt (aircraft q) b' c = Inr (Some t') \<longrightarrow> t \<le> t') \<and>
     find (\<lambda>b'. estimate_time_to_conflict rt (aircraft q) b' c = Inr (Some t)) (birds q) = Some b \<and>
     evaluate_risk rt d q c =
       RiskAssessment_init (fst (risk_band c t)) (snd (risk_band c t)) (Some t) (Some (id_b b))
         (''Closest projected conflict with bird '' @ id_b b @ '' in ~'' @ format_1f rt t
            @ ''s using linear relative motion and heuristic TTC risk bands.'')
         d (compute_input_hash rt q) ENGINE_VERSION (version c)"
proof -
  from scan_birds_some [OF assms] obtain t b where
    r: "scan_birds rt (aircraft q) c (birds q) (None, None) = Inr (Some t, Some b)" and
    lb: "\<forall>b'\<in>set (birds q). \<forall>t'.
           estimate_time_to_conflict rt (aircraft q) b' c = Inr (Some t') \<longrightarrow> t \<le> t'" and
    f: "find (\<lambda>b'. estimate_time_to_conflict rt (aircraft q) b' c = Inr (Some t)) (birds q) = Some b"
    by blast
  from assms(2) have ne: "birds q \<noteq> []" by auto
  have "evaluate_risk rt d q c =
       RiskAssessment_init (fst (risk_band c t)) (snd (risk_band c t)) (Some t) (Some (id_b b))
         (''Closest projected conflict with bird '' @ id_b b @ '' in ~'' @ format_1f rt t
            @ ''s using linear relative motion and heuristic TTC risk bands.'')
         d (compute_input_hash rt q) ENGINE_VERSION (version c)"
    using ne r by (simp add: evaluate_risk_def split: prod.splits)
  with r lb f show ?thesis by blast
qed

lemma RiskAssessment_init_Inr:
  "RiskAssessment_init l p t i ra d h ev cv = Inr r \<Longrightarrow>
   risk_level r = l \<and> collision_probability r = p \<and> time_to_conflict_s r = t \<and>
   most_threatening_bird_id r = i \<and> RiskAssessment.rationale r = ra \<and> decision_id r = d \<and>
   input_hash r = h \<and> 0 \<le> p \<and> p \<le> 1"
  by (auto simp add: RiskAssessment_init_def split: if_splits)

lemma demo_band_8: "risk_band RISK_CONFIG 8 = (CRITICAL, 0.80)"
  by (simp add: risk_band_def RISK_CONFIG_def)

lemma demo_bird_id: "id_b (demo_bird n px) = n"
  by (simp add: demo_bird_def)

section \<open>Risk engine: no birds\<close>

text \<open>
  C4. With an empty bird list evaluate_risk raises nothing, for every configuration: it
  returns the assessment with risk level NONE, probability 0, no TTC, no bird id and the
  fixed rationale.
\<close>

theorem evaluate_risk_no_birds:
  "birds q = [] \<Longrightarrow>
   evaluate_risk rt d q c =
     Inr \<lparr> risk_level = NONE, collision_probability = 0, time_to_conflict_s = None,
           most_threatening_bird_id = None,
           RiskAssessment.rationale = ''No birds in current surveillance volume.'',
           decision_id = d, input_hash = compute_input_hash rt q,
           engine_version = ENGINE_VERSION, config_version = version c \<rparr>"
  by (simp add: evaluate_risk_def RiskAssessment_init_def)

theorem evaluate_risk_no_birds_witness:
  "birds \<lparr> aircraft = demo_aircraft, birds = [] \<rparr> = [] \<and>
   evaluate_risk demo_runtime ''d1'' \<lparr> aircraft = demo_aircraft, birds = [] \<rparr> RISK_CONFIG =
     Inr \<lparr> risk_level = NONE, collision_probability = 0, time_to_conflict_s = None,
           most_threatening_bird_id = None,
           RiskAssessment.rationale = ''No birds in current surveillance volume.'',
           decision_id = ''d1'',
           input_hash = compute_input_hash demo_runtime \<lparr> aircraft = demo_aircraft, birds = [] \<rparr>,
           engine_version = ENGINE_VERSION, config_version = version RISK_CONFIG \<rparr>"
proof -
  have e: "birds \<lparr> aircraft = demo_aircraft, birds = [] \<rparr> = []" by simp
  from evaluate_risk_no_birds [OF e] e show ?thesis by blast
qed

section \<open>Scenario 1\<close>

text \<open>
  C3. Scenario 1 under the default configuration, for every runtime whose arithmetic is
  exact on integers: the aircraft at (0,0,100) with velocity (50,0,0) and one bird at
  (400,0,100) at rest. The distance is 400, the relative speed 50, the TTC 8 after clamping,
  the risk level CRITICAL with probability 0.80, and plan_action answers ABORT_MISSION with
  human approval.
\<close>

theorem scenario_1:
  assumes "exact_on_integers rt"
  shows "(let ac = a0 \<lparr> AircraftState.position := \<lparr> x = 0, y = 0, z = 100 \<rparr>,
                    AircraftState.velocity := \<lparr> vx = 50, vy = 0, vz = 0 \<rparr> \<rparr>;
        bird = b0 \<lparr> BirdDetection.position := \<lparr> x = 400, y = 0, z = 100 \<rparr>,
                    BirdDetection.velocity := \<lparr> vx = 0, vy = 0, vz = 0 \<rparr> \<rparr>;
        assessment =
          \<lparr> risk_level = CRITICAL, collision_probability = 0.80,
            time_to_conflict_s = Some 8, most_threatening_bird_id = Some (id_b b0),
            RiskAssessment.rationale =
              ''Closest projected conflict with bird '' @ id_b b0 @ '' in ~'' @ format_1f rt 8
                @ ''s using linear relative motion and heuristic TTC risk bands.'',
            decision_id = d,
            input_hash = compute_input_hash rt \<lparr> aircraft = ac, birds = [bird] \<rparr>,
            engine_version = ENGINE_VERSION, config_version = version RISK_CONFIG \<rparr>
    in sqrt ((x (AircraftState.position ac) - x (BirdDetection.position bird))\<^sup>2
             + (y (AircraftState.position ac) - y (BirdDetection.position bird))\<^sup>2
             + (z (AircraftState.position ac) - z (BirdDetection.position bird))\<^sup>2) = 400
       \<and> distance rt ac bird = Inr 400
       \<and> 400 < distance_threshold_m RISK_CONFIG
       \<and> sqrt ((vx (AircraftState.velocity ac) - vx (BirdDetection.velocity bird))\<^sup>2
             + (vy (AircraftState.velocity ac) - vy (BirdDetection.velocity bird))\<^sup>2
             + (vz (AircraftState.velocity ac) - vz (BirdDetection.velocity bird))\<^sup>2) = 50
       \<and> relative_speed rt ac bird = Inr 50
       \<and> (400 :: real) / 50 = 8
       \<and> py_truediv rt 400 50 = Inr 8
       \<and> max (min_ttc_s RISK_CONFIG) (min (max_ttc_s RISK_CONFIG) 8) = 8
       \<and> estimate_time_to_conflict rt ac bird RISK_CONFIG = Inr (Some 8)
       \<and> 8 < ttc_high_threshold_s RISK_CONFIG
       \<and> evaluate_risk rt d \<lparr> aircraft = ac, birds = [bird] \<rparr> RISK_CONFIG = Inr assessment
       \<and> action (plan_action assessment) = ABORT_MISSION
       \<and> requires_human_approval (plan_action assessment))"
proof -
  define ac where "ac = a0 \<lparr> AircraftState.position := \<lparr> x = 0, y = 0, z = 100 \<rparr>,
                    AircraftState.velocity := \<lparr> vx = 50, vy = 0, vz = 0 \<rparr> \<rparr>"
  define bird where "bird = b0 \<lparr> BirdDetection.position := \<lparr> x = 400, y = 0, z = 100 \<rparr>,
                    BirdDetection.velocity := \<lparr> vx = 0, vy = 0, vz = 0 \<rparr> \<rparr>"
  note E = assms [unfolded exact_on_integers_def]
  note E1 = E [THEN conjunct1]
  note E2 = E [THEN conjunct2, THEN conjunct1]
  note E3 = E [THEN conjunct2, THEN conjunct2, THEN conjunct1]
  note E4 = E [THEN conjunct2, THEN conjunct2, THEN conjunct2, THEN conjunct1]
  note E5 = E [THEN conjunct2, THEN conjunct2, THEN conjunct2, THEN conjunct2]
  have sub: "float_sub rt a b = a - b"
    if "a \<in> \<int> \<and> b \<in> \<int> \<and> \<bar>a\<bar> \<le> 2 ^ 53 \<and> \<bar>b\<bar> \<le> 2 ^ 53 \<and> \<bar>a - b\<bar> \<le> 2 ^ 53" for a b
    using E1 [rule_format, OF that] .
  have add: "float_add rt a b = a + b"
    if "a \<in> \<int> \<and> b \<in> \<int> \<and> \<bar>a\<bar> \<le> 2 ^ 53 \<and> \<bar>b\<bar> \<le> 2 ^ 53 \<and> \<bar>a + b\<bar> \<le> 2 ^ 53" for a b
    using E2 [rule_format, OF that] .
  have sq: "py_pow rt a 2 = Inr (a\<^sup>2)" if "a \<in> \<int> \<and> a\<^sup>2 \<le> 2 ^ 53" for a
    using E3 [rule_format, OF that] by (simp add: py_pow_def)
  have root: "py_pow rt (a\<^sup>2) (1 / 2) = Inr a" if "a \<in> \<int> \<and> 0 \<le> a \<and> a\<^sup>2 \<le> 2 ^ 53" for a
    using E4 [rule_format, OF that] by (simp add: py_pow_def)
  have "float_truediv rt 400 50 = 400 / 50"
    by (rule E5 [rule_format]) simp
  then have quot: "py_truediv rt 400 50 = Inr 8"
    by (simp add: py_truediv_def)
  have s0: "float_sub rt 0 0 = 0" and s50: "float_sub rt 50 0 = 50"
    and s400: "float_sub rt 0 400 = - 400" and s100: "float_sub rt 100 100 = 0"
    using sub [of 0 0] sub [of 50 0] sub [of 0 400] sub [of 100 100] by simp_all
  have q0: "py_pow rt 0 2 = Inr 0" and q50: "py_pow rt 50 2 = Inr 2500"
    and q400: "py_pow rt (- 400) 2 = Inr 160000"
    using sq [of 0] sq [of 50] sq [of "- 400"] by simp_all
  have a1: "float_add rt 2500 0 = 2500" and a2: "float_add rt 160000 0 = 160000"
    using add [of 2500 0] add [of 160000 0] by simp_all
  have r50: "py_pow rt 2500 (1 / 2) = Inr 50" and r400: "py_pow rt 160000 (1 / 2) = Inr 400"
    using root [of 50] root [of 400] by simp_all
  have dist0: "sqrt ((x (AircraftState.position ac) - x (BirdDetection.position bird))\<^sup>2
             + (y (AircraftState.position ac) - y (BirdDetection.position bird))\<^sup>2
             + (z (AircraftState.position ac) - z (BirdDetection.position bird))\<^sup>2) = 400"
    by (simp add: ac_def bird_def sqrt_160000)
  have speed0: "sqrt ((vx (AircraftState.velocity ac) - vx (BirdDetection.velocity bird))\<^sup>2
             + (vy (AircraftState.velocity ac) - vy (BirdDetection.velocity bird))\<^sup>2
             + (vz (AircraftState.velocity ac) - vz (BirdDetection.velocity bird))\<^sup>2) = 50"
    by (simp add: ac_def bird_def sqrt_2500)
  have dist: "distance rt ac bird = Inr 400"
    by (simp add: distance_def ac_def bird_def s400 s0 s100 q400 q0 a2 r400)
  have speed: "relative_speed rt ac bird = Inr 50"
    by (simp add: relative_speed_def ac_def bird_def s50 s0 q50 q0 a1 r50)
  have ettc: "estimate_time_to_conflict rt ac bird RISK_CONFIG = Inr (Some 8)"
    unfolding ettc_unfold dist speed
    by (simp add: quot RISK_CONFIG_def)
  have band: "risk_band RISK_CONFIG 8 = (CRITICAL, 0.80)"
    by (simp add: risk_band_def RISK_CONFIG_def)
  have idb: "id_b bird = id_b b0" by (simp add: bird_def)
  have ev: "evaluate_risk rt d \<lparr> aircraft = ac, birds = [bird] \<rparr> RISK_CONFIG =
     Inr \<lparr> risk_level = CRITICAL, collision_probability = 0.80,
            time_to_conflict_s = Some 8, most_threatening_bird_id = Some (id_b b0),
            RiskAssessment.rationale =
              ''Closest projected conflict with bird '' @ id_b b0 @ '' in ~'' @ format_1f rt 8
                @ ''s using linear relative motion and heuristic TTC risk bands.'',
            decision_id = d,
            input_hash = compute_input_hash rt \<lparr> aircraft = ac, birds = [bird] \<rparr>,
            engine_version = ENGINE_VERSION, config_version = version RISK_CONFIG \<rparr>"
    by (simp add: evaluate_risk_def ettc band idb RiskAssessment_init_def)
  show ?thesis
    unfolding Let_def ac_def [symmetric] bird_def [symmetric]
    using dist0 speed0 dist speed quot ettc ev
    by (simp add: plan_action_def RISK_CONFIG_def)
qed

theorem scenario_1_witness:
  "exact_on_integers demo_runtime \<and>
   estimate_time_to_conflict demo_runtime
     (demo_aircraft \<lparr> AircraftState.position := \<lparr> x = 0, y = 0, z = 100 \<rparr>,
                      AircraftState.velocity := \<lparr> vx = 50, vy = 0, vz = 0 \<rparr> \<rparr>)
     (demo_bird ''b1'' 400 \<lparr> BirdDetection.position := \<lparr> x = 400, y = 0, z = 100 \<rparr>,
                             BirdDetection.velocity := \<lparr> vx = 0, vy = 0, vz = 0 \<rparr> \<rparr>)
     RISK_CONFIG = Inr (Some 8) \<and>
   evaluate_risk demo_runtime ''d1''
      \<lparr> aircraft = (demo_aircraft \<lparr> AircraftState.position := \<lparr> x = 0, y = 0, z = 100 \<rparr>,
                      AircraftState.velocity := \<lparr> vx = 50, vy = 0, vz = 0 \<rparr> \<rparr>),
        birds = [(demo_bird ''b1'' 400 \<lparr> BirdDetection.position := \<lparr> x = 400, y = 0, z = 100 \<rparr>,
                             BirdDetection.velocity := \<lparr> vx = 0, vy = 0, vz = 0 \<rparr> \<rparr>)] \<rparr>
      RISK_CONFIG =
     Inr \<lparr> risk_level = CRITICAL, collision_probability = 0.80,
            time_to_conflict_s = Some 8,
            most_threatening_bird_id = Some (id_b (demo_bird ''b1'' 400)),
            RiskAssessment.rationale =
              ''Closest projected conflict with bird '' @ id_b (demo_bird ''b1'' 400) @ '' in ~''
                @ format_1f demo_runtime 8
                @ ''s using linear relative motion and heuristic TTC risk bands.'',
            decision_id = ''d1'',
            input_hash = compute_input_hash demo_runtime
              \<lparr> aircraft = (demo_aircraft \<lparr> AircraftState.position := \<lparr> x = 0, y = 0, z = 100 \<rparr>,
                      AircraftState.velocity := \<lparr> vx = 50, vy = 0, vz = 0 \<rparr> \<rparr>),
        birds = [(demo_bird ''b1'' 400 \<lparr> BirdDetection.position := \<lparr> x = 400, y = 0, z = 100 \<rparr>,
                             BirdDetection.velocity := \<lparr> vx = 0, vy = 0, vz = 0 \<rparr> \<rparr>)] \<rparr>,
            engine_version = ENGINE_VERSION, config_version = version RISK_CONFIG \<rparr> \<and>
   action (plan_action
      \<lparr> risk_level = CRITICAL, collision_probability = 0.80,
            time_to_conflict_s = Some 8,
            most_threatening_bird_id = Some (id_b (demo_bird ''b1'' 400)),
            RiskAssessment.rationale =
              ''Closest projected conflict with bird '' @ id_b (demo_bird ''b1'' 400) @ '' in ~''
                @ format_1f demo_runtime 8
                @ ''s using linear relative motion and heuristic TTC risk bands.'',
            decision_id = ''d1'',
            input_hash = compute_input_hash demo_runtime
              \<lparr> aircraft = (demo_aircraft \<lparr> AircraftState.position := \<lparr> x = 0, y = 0, z = 100 \<rparr>,
                      AircraftState.velocity := \<lparr> vx = 50, vy = 0, vz = 0 \<rparr> \<rparr>),
        birds = [(demo_bird ''b1'' 400 \<lparr> BirdDetection.position := \<lparr> x = 400, y = 0, z = 100 \<rparr>,
                             BirdDetection.velocity := \<lparr> vx = 0, vy = 0, vz = 0 \<rparr> \<rparr>)] \<rparr>,
            engine_version = ENGINE_VERSION, config_version = version RISK_CONFIG \<rparr>) = ABORT_MISSION"
proof -
  note t = scenario_1 [OF demo_exact, of demo_aircraft "demo_bird ''b1'' 400" "''d1''",
      unfolded Let_def]
  from t have e: "estimate_time_to_conflict demo_runtime
     (demo_aircraft \<lparr> AircraftState.position := \<lparr> x = 0, y = 0, z = 100 \<rparr>,
                      AircraftState.velocity := \<lparr> vx = 50, vy = 0, vz = 0 \<rparr> \<rparr>)
     (demo_bird ''b1'' 400 \<lparr> BirdDetection.position := \<lparr> x = 400, y = 0, z = 100 \<rparr>,
                             BirdDetection.velocity := \<lparr> vx = 0, vy = 0, vz = 0 \<rparr> \<rparr>)
     RISK_CONFIG = Inr (Some 8)"
    by (elim conjE)
  from t have v: "evaluate_risk demo_runtime ''d1''
      \<lparr> aircraft = (demo_aircraft \<lparr> AircraftState.position := \<lparr> x = 0, y = 0, z = 100 \<rparr>,
                      AircraftState.velocity := \<lparr> vx = 50, vy = 0, vz = 0 \<rparr> \<rparr>),
        birds = [(demo_bird ''b1'' 400 \<lparr> BirdDetection.position := \<lparr> x = 400, y = 0, z = 100 \<rparr>,
                             BirdDetection.velocity := \<lparr> vx = 0, vy = 0, vz = 0 \<rparr> \<rparr>)] \<rparr>
      RISK_CONFIG =
     Inr \<lparr> risk_level = CRITICAL, collision_probability = 0.80,
            time_to_conflict_s = Some 8,
            most_threatening_bird_id = Some (id_b (demo_bird ''b1'' 400)),
            RiskAssessment.rationale =
              ''Closest projected conflict with bird '' @ id_b (demo_bird ''b1'' 400) @ '' in ~''
                @ format_1f demo_runtime 8
                @ ''s using linear relative motion and heuristic TTC risk bands.'',
            decision_id = ''d1'',
            input_hash = compute_input_hash demo_runtime
              \<lparr> aircraft = (demo_aircraft \<lparr> AircraftState.position := \<lparr> x = 0, y = 0, z = 100 \<rparr>,
                      AircraftState.velocity := \<lparr> vx = 50, vy = 0, vz = 0 \<rparr> \<rparr>),
        birds = [(demo_bird ''b1'' 400 \<lparr> BirdDetection.position := \<lparr> x = 400, y = 0, z = 100 \<rparr>,
                             BirdDetection.velocity := \<lparr> vx = 0, vy = 0, vz = 0 \<rparr> \<rparr>)] \<rparr>,
            engine_version = ENGINE_VERSION, config_version = version RISK_CONFIG \<rparr>"
    by (elim conjE)
  from t have p: "action (plan_action
      \<lparr> risk_level = CRITICAL, collision_probability = 0.80,
            time_to_conflict_s = Some 8,
            most_threatening_bird_id = Some (id_b (demo_bird ''b1'' 400)),
            RiskAssessment.rationale =
              ''Closest projected conflict with bird '' @ id_b (demo_bird ''b1'' 400) @ '' in ~''
                @ format_1f demo_runtime 8
                @ ''s using linear relative motion and heuristic TTC risk bands.'',
            decision_id = ''d1'',
            input_hash = compute_input_hash demo_runtime
              \<lparr> aircraft = (demo_aircraft \<lparr> AircraftState.position := \<lparr> x = 0, y = 0, z = 100 \<rparr>,
                      AircraftState.velocity := \<lparr> vx = 50, vy = 0, vz = 0 \<rparr> \<rparr>),
        birds = [(demo_bird ''b1'' 400 \<lparr> BirdDetection.position := \<lparr> x = 400, y = 0, z = 100 \<rparr>,
                             BirdDetection.velocity := \<lparr> vx = 0, vy = 0, vz = 0 \<rparr> \<rparr>)] \<rparr>,
            engine_version = ENGINE_VERSION, config_version = version RISK_CONFIG \<rparr>) = ABORT_MISSION"
    by (elim conjE)
  from demo_exact e v p show ?thesis by (intro conjI)
qed

section \<open>Risk engine: birds present, no conflict\<close>




section \<open>Risk engine: the most threatening bird\<close>




section \<open>Risk engine: TTC and bird id are present together\<close>

text \<open>
  C10. In every assessment evaluate_risk returns, the TTC is present exactly when the bird
  id is present, and both are present exactly when some bird has a TTC; they are then the
  least TTC and the id of the first bird with it. They are absent for an empty bird list and
  when no bird has a TTC.
\<close>

theorem evaluate_risk_ttc_iff_bird:
  assumes "evaluate_risk rt d q c = Inr r"
  shows "(time_to_conflict_s r = None \<longleftrightarrow> most_threatening_bird_id r = None) \<and>
     (time_to_conflict_s r \<noteq> None \<longleftrightarrow>
        (\<exists>b\<in>set (birds q). \<exists>t. estimate_time_to_conflict rt (aircraft q) b c = Inr (Some t))) \<and>
     (\<forall>t. time_to_conflict_s r = Some t \<longrightarrow>
        (\<exists>b\<in>set (birds q). estimate_time_to_conflict rt (aircraft q) b c = Inr (Some t) \<and>
           find (\<lambda>b'. estimate_time_to_conflict rt (aircraft q) b' c = Inr (Some t)) (birds q) = Some b \<and>
           most_threatening_bird_id r = Some (id_b b)) \<and>
        (\<forall>b'\<in>set (birds q). \<forall>t'.
           estimate_time_to_conflict rt (aircraft q) b' c = Inr (Some t') \<longrightarrow> t \<le> t'))"
proof -
  from assms evaluate_risk_raises [of q rt c d]
  have "\<not> (\<exists>b\<in>set (birds q). \<exists>e. estimate_time_to_conflict rt (aircraft q) b c = Inl e)"
    by auto
  with birds_cases [of "birds q" rt "aircraft q" c]
  consider
    (conflict) "\<forall>b\<in>set (birds q). \<exists>v. estimate_time_to_conflict rt (aircraft q) b c = Inr v"
      "\<exists>b\<in>set (birds q). \<exists>t. estimate_time_to_conflict rt (aircraft q) b c = Inr (Some t)"
    | (quiet) "\<forall>b\<in>set (birds q). estimate_time_to_conflict rt (aircraft q) b c = Inr None"
    by blast
  then show ?thesis
  proof cases
    case conflict
    from evaluate_risk_conflict [OF conflict, of d] obtain t b where
      lb: "\<forall>b'\<in>set (birds q). \<forall>t'.
             estimate_time_to_conflict rt (aircraft q) b' c = Inr (Some t') \<longrightarrow> t \<le> t'" and
      f: "find (\<lambda>b'. estimate_time_to_conflict rt (aircraft q) b' c = Inr (Some t)) (birds q) = Some b" and
      e: "evaluate_risk rt d q c =
         RiskAssessment_init (fst (risk_band c t)) (snd (risk_band c t)) (Some t) (Some (id_b b))
           (''Closest projected conflict with bird '' @ id_b b @ '' in ~'' @ format_1f rt t
              @ ''s using linear relative motion and heuristic TTC risk bands.'')
           d (compute_input_hash rt q) ENGINE_VERSION (version c)"
      by blast
    from assms e
    have s: "time_to_conflict_s r = Some t \<and> most_threatening_bird_id r = Some (id_b b)"
      by (auto dest: RiskAssessment_init_Inr)
    from f have m: "estimate_time_to_conflict rt (aircraft q) b c = Inr (Some t)"
      and i: "b \<in> set (birds q)"
      by (auto simp add: find_Some_iff)
    from s m i lb f conflict(2) show ?thesis by auto
  next
    case quiet
    have "time_to_conflict_s r = None \<and> most_threatening_bird_id r = None"
    proof (cases "birds q = []")
      case True
      from assms evaluate_risk_empty [OF True, of rt d c] show ?thesis
        by (auto dest: RiskAssessment_init_Inr)
    next
      case ne: False
      from assms evaluate_risk_presence [OF ne quiet, of d] show ?thesis
        by (auto dest: RiskAssessment_init_Inr)
    qed
    with quiet show ?thesis by simp
  qed
qed

theorem evaluate_risk_ttc_iff_bird_witness:
  "\<exists>r. evaluate_risk demo_runtime ''d1''
          (demo_query [demo_bird ''b1'' 400, demo_bird ''b2'' 400, demo_bird ''b3'' 2000])
          RISK_CONFIG = Inr r \<and>
        time_to_conflict_s r \<noteq> None \<and> most_threatening_bird_id r \<noteq> None"
proof -
  let ?q = "demo_query [demo_bird ''b1'' 400, demo_bird ''b2'' 400, demo_bird ''b3'' 2000]"
  have h: "\<exists>b\<in>set (birds ?q). \<exists>t.
      estimate_time_to_conflict demo_runtime (aircraft ?q) b RISK_CONFIG = Inr (Some t)"
    by (simp add: demo_query_def)
  have "scan_birds demo_runtime demo_aircraft RISK_CONFIG
          [demo_bird ''b1'' 400, demo_bird ''b2'' 400, demo_bird ''b3'' 2000] (None, None)
        = Inr (Some 8, Some (demo_bird ''b1'' 400))"
    by (simp add: demo_ettc_far)
  then obtain r where e: "evaluate_risk demo_runtime ''d1'' ?q RISK_CONFIG = Inr r"
    by (simp add: evaluate_risk_def demo_query_def demo_band_8 RiskAssessment_init_def)
  from evaluate_risk_ttc_iff_bird [OF e] h
  have "time_to_conflict_s r \<noteq> None \<and> most_threatening_bird_id r \<noteq> None"
    by blast
  with e show ?thesis by blast
qed

section \<open>Risk engine: the order of the birds\<close>

lemma RiskAssessment_init_view:
  "map_sum id (\<lambda>r. (risk_level r, collision_probability r, time_to_conflict_s r))
     (RiskAssessment_init l p t i ra d h ev cv) =
   (if 0 \<le> p \<and> p \<le> 1 then Inr (l, p, t) else Inl ValidationError)"
  by (simp add: RiskAssessment_init_def)

lemma RiskAssessment_init_drop_hash:
  "map_sum id (\<lambda>r. r \<lparr> input_hash := [] \<rparr>) (RiskAssessment_init l p t i ra d h ev cv) =
   RiskAssessment_init l p t i ra d [] ev cv"
  by (simp add: RiskAssessment_init_def)

text \<open>
  C9, amended. Permuting the bird list leaves the risk level, the collision probability
  and the TTC of the result unchanged, and whether evaluate_risk raises. When all birds that
  have the least TTC carry the same id, the whole result but its input hash is unchanged:
  the bird id and the rationale depend on the order only through the choice among birds
  with the least TTC, and the input hash is computed from the list in its order.
\<close>

theorem evaluate_risk_permutation:
  assumes p: "mset (birds q') = mset (birds q)" and a: "aircraft q' = aircraft q"
  shows "map_sum id (\<lambda>r. (risk_level r, collision_probability r, time_to_conflict_s r))
       (evaluate_risk rt d q' c) =
     map_sum id (\<lambda>r. (risk_level r, collision_probability r, time_to_conflict_s r))
       (evaluate_risk rt d q c) \<and>
     ((\<forall>b\<in>set (birds q). \<forall>b'\<in>set (birds q).
         (\<exists>t. estimate_time_to_conflict rt (aircraft q) b c = Inr (Some t) \<and>
              estimate_time_to_conflict rt (aircraft q) b' c = Inr (Some t) \<and>
              (\<forall>b''\<in>set (birds q). \<forall>t''.
                 estimate_time_to_conflict rt (aircraft q) b'' c = Inr (Some t'') \<longrightarrow> t \<le> t'')) \<longrightarrow>
         id_b b = id_b b') \<longrightarrow>
      map_sum id (\<lambda>r. r \<lparr> input_hash := [] \<rparr>) (evaluate_risk rt d q' c) =
      map_sum id (\<lambda>r. r \<lparr> input_hash := [] \<rparr>) (evaluate_risk rt d q c))"
proof -
  from p have s: "set (birds q') = set (birds q)" by (rule mset_eq_setD)
  from p have e: "birds q' = [] \<longleftrightarrow> birds q = []"
    by (metis mset_zero_iff)
  from birds_cases [of "birds q" rt "aircraft q" c]
  consider
    (raises) "\<exists>b\<in>set (birds q). \<exists>e. estimate_time_to_conflict rt (aircraft q) b c = Inl e"
    | (conflict) "\<forall>b\<in>set (birds q). \<exists>v. estimate_time_to_conflict rt (aircraft q) b c = Inr v"
        "\<exists>b\<in>set (birds q). \<exists>t. estimate_time_to_conflict rt (aircraft q) b c = Inr (Some t)"
    | (quiet) "\<forall>b\<in>set (birds q). estimate_time_to_conflict rt (aircraft q) b c = Inr None"
    by blast
  then show ?thesis
  proof cases
    case raises
    with s a
    have raises': "\<exists>b\<in>set (birds q'). \<exists>e. estimate_time_to_conflict rt (aircraft q') b c = Inl e"
      by simp
    show ?thesis
      unfolding evaluate_risk_raises [OF raises] evaluate_risk_raises [OF raises']
      by simp
  next
    case conflict
    from evaluate_risk_conflict [OF conflict, of d] obtain t b where
      lb: "\<forall>b'\<in>set (birds q). \<forall>t'.
             estimate_time_to_conflict rt (aircraft q) b' c = Inr (Some t') \<longrightarrow> t \<le> t'" and
      f: "find (\<lambda>b'. estimate_time_to_conflict rt (aircraft q) b' c = Inr (Some t)) (birds q) = Some b" and
      ev: "evaluate_risk rt d q c =
         RiskAssessment_init (fst (risk_band c t)) (snd (risk_band c t)) (Some t) (Some (id_b b))
           (''Closest projected conflict with bird '' @ id_b b @ '' in ~'' @ format_1f rt t
              @ ''s using linear relative motion and heuristic TTC risk bands.'')
           d (compute_input_hash rt q) ENGINE_VERSION (version c)"
      by blast
    from conflict s a
    have c1: "\<forall>b\<in>set (birds q'). \<exists>v. estimate_time_to_conflict rt (aircraft q') b c = Inr v"
      and c2: "\<exists>b\<in>set (birds q'). \<exists>t. estimate_time_to_conflict rt (aircraft q') b c = Inr (Some t)"
      by simp_all
    from evaluate_risk_conflict [OF c1 c2, of d] obtain t' b' where
      lb': "\<forall>b''\<in>set (birds q'). \<forall>t''.
              estimate_time_to_conflict rt (aircraft q') b'' c = Inr (Some t'') \<longrightarrow> t' \<le> t''" and
      f': "find (\<lambda>b''. estimate_time_to_conflict rt (aircraft q') b'' c = Inr (Some t')) (birds q')
             = Some b'" and
      ev': "evaluate_risk rt d q' c =
         RiskAssessment_init (fst (risk_band c t')) (snd (risk_band c t')) (Some t') (Some (id_b b'))
           (''Closest projected conflict with bird '' @ id_b b' @ '' in ~'' @ format_1f rt t'
              @ ''s using linear relative motion and heuristic TTC risk bands.'')
           d (compute_input_hash rt q') ENGINE_VERSION (version c)"
      by blast
    from f have m: "estimate_time_to_conflict rt (aircraft q) b c = Inr (Some t)"
      and i: "b \<in> set (birds q)"
      by (auto simp add: find_Some_iff)
    from f' a s have m': "estimate_time_to_conflict rt (aircraft q) b' c = Inr (Some t')"
      and i': "b' \<in> set (birds q)"
      by (auto simp add: find_Some_iff)
    from lb m' i' have "t \<le> t'" by blast
    moreover from lb' a s m i have "t' \<le> t" by simp
    ultimately have tt: "t' = t" by simp
    have v: "map_sum id (\<lambda>r. (risk_level r, collision_probability r, time_to_conflict_s r))
         (evaluate_risk rt d q' c) =
       map_sum id (\<lambda>r. (risk_level r, collision_probability r, time_to_conflict_s r))
         (evaluate_risk rt d q c)"
      unfolding ev ev' RiskAssessment_init_view tt ..
    have h: "map_sum id (\<lambda>r. r \<lparr> input_hash := [] \<rparr>) (evaluate_risk rt d q' c) =
        map_sum id (\<lambda>r. r \<lparr> input_hash := [] \<rparr>) (evaluate_risk rt d q c)"
      if tie: "\<forall>b\<in>set (birds q). \<forall>b'\<in>set (birds q).
         (\<exists>t. estimate_time_to_conflict rt (aircraft q) b c = Inr (Some t) \<and>
              estimate_time_to_conflict rt (aircraft q) b' c = Inr (Some t) \<and>
              (\<forall>b''\<in>set (birds q). \<forall>t''.
                 estimate_time_to_conflict rt (aircraft q) b'' c = Inr (Some t'') \<longrightarrow> t \<le> t'')) \<longrightarrow>
         id_b b = id_b b'"
    proof -
      from m m' tt lb have "\<exists>u. estimate_time_to_conflict rt (aircraft q) b c = Inr (Some u) \<and>
              estimate_time_to_conflict rt (aircraft q) b' c = Inr (Some u) \<and>
              (\<forall>b''\<in>set (birds q). \<forall>t''.
                 estimate_time_to_conflict rt (aircraft q) b'' c = Inr (Some t'') \<longrightarrow> u \<le> t'')"
        by blast
      with tie i i' have "id_b b = id_b b'" by blast
      then show ?thesis
        unfolding ev ev' RiskAssessment_init_drop_hash tt by simp
    qed
    from v h show ?thesis by blast
  next
    case quiet
    with s a
    have quiet': "\<forall>b\<in>set (birds q'). estimate_time_to_conflict rt (aircraft q') b c = Inr None"
      by simp
    show ?thesis
    proof (cases "birds q = []")
      case True
      with e have True': "birds q' = []" by simp
      show ?thesis
        unfolding evaluate_risk_empty [OF True] evaluate_risk_empty [OF True']
          RiskAssessment_init_view RiskAssessment_init_drop_hash
        by simp
    next
      case ne: False
      with e have ne': "birds q' \<noteq> []" by simp
      show ?thesis
        unfolding evaluate_risk_presence [OF ne quiet] evaluate_risk_presence [OF ne' quiet']
          RiskAssessment_init_view RiskAssessment_init_drop_hash
        by simp
    qed
  qed
qed

theorem evaluate_risk_permutation_witness:
  "mset (birds (demo_query [demo_bird ''b3'' 2000, demo_bird ''b1'' 400])) =
     mset (birds (demo_query [demo_bird ''b1'' 400, demo_bird ''b3'' 2000])) \<and>
   aircraft (demo_query [demo_bird ''b3'' 2000, demo_bird ''b1'' 400]) =
     aircraft (demo_query [demo_bird ''b1'' 400, demo_bird ''b3'' 2000]) \<and>
   map_sum id (\<lambda>r. (risk_level r, collision_probability r, time_to_conflict_s r))
     (evaluate_risk demo_runtime ''d1'' (demo_query [demo_bird ''b3'' 2000, demo_bird ''b1'' 400])
        RISK_CONFIG) =
   map_sum id (\<lambda>r. (risk_level r, collision_probability r, time_to_conflict_s r))
     (evaluate_risk demo_runtime ''d1'' (demo_query [demo_bird ''b1'' 400, demo_bird ''b3'' 2000])
        RISK_CONFIG) \<and>
   map_sum id (\<lambda>r. r \<lparr> input_hash := [] \<rparr>)
     (evaluate_risk demo_runtime ''d1'' (demo_query [demo_bird ''b3'' 2000, demo_bird ''b1'' 400])
        RISK_CONFIG) =
   map_sum id (\<lambda>r. r \<lparr> input_hash := [] \<rparr>)
     (evaluate_risk demo_runtime ''d1'' (demo_query [demo_bird ''b1'' 400, demo_bird ''b3'' 2000])
        RISK_CONFIG)"
proof -
  let ?q = "demo_query [demo_bird ''b1'' 400, demo_bird ''b3'' 2000]"
  let ?q' = "demo_query [demo_bird ''b3'' 2000, demo_bird ''b1'' 400]"
  have p: "mset (birds ?q') = mset (birds ?q)"
    by (simp add: demo_query_def)
  have a: "aircraft ?q' = aircraft ?q"
    by (simp add: demo_query_def)
  have tie: "\<forall>b\<in>set (birds ?q). \<forall>b'\<in>set (birds ?q).
         (\<exists>t. estimate_time_to_conflict demo_runtime (aircraft ?q) b RISK_CONFIG = Inr (Some t) \<and>
              estimate_time_to_conflict demo_runtime (aircraft ?q) b' RISK_CONFIG = Inr (Some t) \<and>
              (\<forall>b''\<in>set (birds ?q). \<forall>t''.
                 estimate_time_to_conflict demo_runtime (aircraft ?q) b'' RISK_CONFIG = Inr (Some t'')
                   \<longrightarrow> t \<le> t'')) \<longrightarrow>
         id_b b = id_b b'"
    by (simp add: demo_query_def demo_ettc_far)
  from evaluate_risk_permutation [OF p a, of demo_runtime "''d1''" RISK_CONFIG] tie p a
  show ?thesis by blast
qed

text \<open>
  Two birds with the ids b1 and b2 at the same place have the same TTC; the first of the
  list is reported, so exchanging them changes the result.
\<close>

theorem evaluate_risk_order_matters:
  "mset (birds (demo_query [demo_bird ''b2'' 400, demo_bird ''b1'' 400])) =
     mset (birds (demo_query [demo_bird ''b1'' 400, demo_bird ''b2'' 400])) \<and>
   map_sum id most_threatening_bird_id
     (evaluate_risk demo_runtime ''d1'' (demo_query [demo_bird ''b1'' 400, demo_bird ''b2'' 400])
        RISK_CONFIG) = Inr (Some ''b1'') \<and>
   map_sum id most_threatening_bird_id
     (evaluate_risk demo_runtime ''d1'' (demo_query [demo_bird ''b2'' 400, demo_bird ''b1'' 400])
        RISK_CONFIG) = Inr (Some ''b2'') \<and>
   evaluate_risk demo_runtime ''d1'' (demo_query [demo_bird ''b2'' 400, demo_bird ''b1'' 400])
        RISK_CONFIG \<noteq>
   evaluate_risk demo_runtime ''d1'' (demo_query [demo_bird ''b1'' 400, demo_bird ''b2'' 400])
        RISK_CONFIG"
proof -
  let ?q = "demo_query [demo_bird ''b1'' 400, demo_bird ''b2'' 400]"
  let ?q' = "demo_query [demo_bird ''b2'' 400, demo_bird ''b1'' 400]"
  have p: "mset (birds ?q') = mset (birds ?q)"
    by (simp add: demo_query_def)
  have 1: "map_sum id most_threatening_bird_id (evaluate_risk demo_runtime ''d1'' ?q RISK_CONFIG)
      = Inr (Some ''b1'')"
    by (simp add: evaluate_risk_def demo_query_def demo_band_8 RiskAssessment_init_def demo_bird_id)
  have 2: "map_sum id most_threatening_bird_id (evaluate_risk demo_runtime ''d1'' ?q' RISK_CONFIG)
      = Inr (Some ''b2'')"
    by (simp add: evaluate_risk_def demo_query_def demo_band_8 RiskAssessment_init_def demo_bird_id)
  from 1 2 have "evaluate_risk demo_runtime ''d1'' ?q' RISK_CONFIG \<noteq>
     evaluate_risk demo_runtime ''d1'' ?q RISK_CONFIG"
    by auto
  with p 1 2 show ?thesis by blast
qed

end
